theory Spec2Isabelle
  imports Complex_Main "HOL-Library.Char_ord" "HOL-Library.Sublist"
begin

section \<open>Python values used by \<open>structure_name_parsing.py\<close>\<close>

text \<open>
  The module is Python. Strings are modelled as \<open>string\<close> over the ASCII token set of
  the naming standard. A function that can return either a \<open>bool\<close> or an \<open>int\<close> returns
  a \<open>pyval\<close>, so that the difference between \<open>False\<close> and an integer stays visible.
  Exceptions are values of \<open>py_error\<close>.
\<close>

datatype py_error = IndexError | ValueError | OverflowError

datatype pyval = PBool bool | PInt int

text \<open>Python's unary \<open>~\<close>: \<open>bool\<close> is a subclass of \<open>int\<close>, so \<open>~True = -2\<close> and
  \<open>~False = -1\<close>; the result is always an \<open>int\<close>.\<close>

fun py_invert :: "pyval \<Rightarrow> pyval" where
  "py_invert (PBool b) = PInt (- (if b then 1 else 0) - 1)"
| "py_invert (PInt i) = PInt (- i - 1)"

text \<open>Truth value testing: \<open>False\<close> and \<open>0\<close> are false, everything else is true.\<close>

fun truthy :: "pyval \<Rightarrow> bool" where
  "truthy (PBool b) = b"
| "truthy (PInt i) = (i \<noteq> 0)"

text \<open>\<open>str.lower()\<close> on ASCII text.\<close>

definition lower_char :: "char \<Rightarrow> char" where
  "lower_char c =
     (if CHR ''A'' \<le> c \<and> c \<le> CHR ''Z'' then char_of (of_char c + (32::nat)) else c)"

definition lower :: "string \<Rightarrow> string" where
  "lower s = map lower_char s"

section \<open>Test functions\<close>

text \<open>\<open>valid_length(text, max_length=16)\<close>\<close>

definition valid_length :: "string \<Rightarrow> nat \<Rightarrow> bool" where
  "valid_length text max_length = (let text_len = length text in text_len \<le> max_length)"

text \<open>\<open>no_spaces(text)\<close>: \<open>has_space = ' ' in text; return ~has_space\<close>\<close>

definition no_spaces :: "string \<Rightarrow> pyval" where
  "no_spaces text = (let has_space = (CHR '' '' \<in> set text) in py_invert (PBool has_space))"

text \<open>\<open>no_dup(structures)\<close>: the set comprehension of the lowered names, compared in
  size with the list, then \<open>~has_dup\<close>.\<close>

definition no_dup :: "string list \<Rightarrow> pyval" where
  "no_dup structures =
     (let unique_structures = set (map lower structures);
          has_dup = (card unique_structures < length structures)
      in py_invert (PBool has_dup))"

text \<open>\<open>not_evaluated(text)\<close>: \<open>text[0]\<close> raises \<open>IndexError\<close> on the empty string; the
  one-character string \<open>text[0]\<close> is looked up in \<open>['Z', '_']\<close>.\<close>

definition exclude_prefixes :: "string list" where
  "exclude_prefixes = [''Z'', ''_'']"

definition not_evaluated :: "string \<Rightarrow> py_error + bool" where
  "not_evaluated text =
     (case text of
        [] \<Rightarrow> Inl IndexError
      | c # _ \<Rightarrow> (let exclude = ([c] \<in> set exclude_prefixes) in Inr exclude))"

section \<open>Python floats and number parsing\<close>

text \<open>
  A Python \<open>float\<close> is an IEEE 754 binary64 value. A finite one is kept as sign,
  mantissa and binary exponent, \<open>(-1)^s * m * 2^e\<close>, with the mantissa odd (or
  \<open>m = 0, e = 0\<close>), so that equal values are equal terms. \<open>round_binary64 n d\<close> rounds
  the non-negative ratio \<open>n / d\<close> to the nearest binary64 value, ties to even: 53
  bits of mantissa, subnormals below \<open>2^-1022\<close>, and no value (overflow) from
  \<open>2^1024\<close> on.
\<close>

datatype pyfloat = Finite bool int int | Infinite bool | NaN

function norm_down :: "int \<Rightarrow> int \<Rightarrow> int \<Rightarrow> int \<times> int \<times> int" where
  "norm_down n d e =
     (if 2 ^ 53 * d \<le> n \<and> e < 972 then norm_down n (2 * d) (e + 1) else (n, d, e))"
  by pat_completeness auto
termination
  by (relation "measure (\<lambda>(n, d, e). nat (972 - e))") auto

function norm_up :: "int \<Rightarrow> int \<Rightarrow> int \<Rightarrow> int \<times> int \<times> int" where
  "norm_up n d e =
     (if n < 2 ^ 52 * d \<and> - 1074 < e then norm_up (2 * n) d (e - 1) else (n, d, e))"
  by pat_completeness auto
termination
  by (relation "measure (\<lambda>(n, d, e). nat (e + 1074))") auto

function trim :: "int \<Rightarrow> int \<Rightarrow> int \<times> int" where
  "trim m e = (if m = 0 then (0, 0) else if even m then trim (m div 2) (e + 1) else (m, e))"
  by pat_completeness auto
termination
  by (relation "measure (\<lambda>(m, e). nat \<bar>m\<bar>)") auto

declare norm_down.simps [simp del] norm_up.simps [simp del] trim.simps [simp del]

definition round_half_even :: "int \<Rightarrow> int \<Rightarrow> int" where
  "round_half_even n d =
     (let f = n div d; r = n mod d
      in if 2 * r < d then f else if d < 2 * r then f + 1 else if even f then f else f + 1)"

definition round_binary64 :: "int \<Rightarrow> int \<Rightarrow> (int \<times> int) option" where
  "round_binary64 n d =
     (let (n1, d1, e1) = norm_down n d 0;
          (n2, d2, e2) = norm_up n1 d1 e1;
          m = round_half_even n2 d2
      in if 0 \<le> e2 \<and> 2 ^ 1024 \<le> m * 2 ^ nat e2 then None else Some (trim m e2))"

definition float_of_ratio :: "bool \<Rightarrow> int \<Rightarrow> int \<Rightarrow> pyfloat" where
  "float_of_ratio neg n d =
     (case round_binary64 n d of None \<Rightarrow> Infinite neg | Some (m, e) \<Rightarrow> Finite neg m e)"

text \<open>The rational number a finite float stands for.\<close>

definition float_value :: "pyfloat \<Rightarrow> rat option" where
  "float_value x =
     (case x of
        Finite neg m e \<Rightarrow>
          Some ((if neg then - 1 else 1) * of_int m
                * (if 0 \<le> e then 2 ^ nat e else 1 / 2 ^ nat (- e)))
      | _ \<Rightarrow> None)"

text \<open>\<open>float(i)\<close> for an \<open>int\<close>, as in \<open>float * int\<close>: \<open>OverflowError\<close> when the integer
  is too large for a float.\<close>

definition float_of_int :: "int \<Rightarrow> py_error + pyfloat" where
  "float_of_int i =
     (case round_binary64 \<bar>i\<bar> 1 of
        None \<Rightarrow> Inl OverflowError
      | Some (m, e) \<Rightarrow> Inr (Finite (i < 0) m e))"

fun float_mul :: "pyfloat \<Rightarrow> pyfloat \<Rightarrow> pyfloat" where
  "float_mul (Finite s1 m1 e1) (Finite s2 m2 e2) =
     (let e = e1 + e2
      in float_of_ratio (s1 \<noteq> s2) (m1 * m2 * (if 0 \<le> e then 2 ^ nat e else 1))
                        (if 0 \<le> e then 1 else 2 ^ nat (- e)))"
| "float_mul (Finite s1 m1 e1) (Infinite s2) = (if m1 = 0 then NaN else Infinite (s1 \<noteq> s2))"
| "float_mul (Infinite s1) (Finite s2 m2 e2) = (if m2 = 0 then NaN else Infinite (s1 \<noteq> s2))"
| "float_mul (Infinite s1) (Infinite s2) = Infinite (s1 \<noteq> s2)"
| "float_mul NaN _ = NaN"
| "float_mul _ NaN = NaN"

definition float_mul_int :: "pyfloat \<Rightarrow> int \<Rightarrow> py_error + pyfloat" where
  "float_mul_int x i =
     (case float_of_int i of Inl err \<Rightarrow> Inl err | Inr y \<Rightarrow> Inr (float_mul x y))"

text \<open>
  \<open>int(s)\<close> and \<open>float(s)\<close> on ASCII text: surrounding whitespace is stripped, a sign
  is optional, digits may be grouped by single underscores; \<open>float\<close> also reads a
  decimal point, an exponent, and \<open>inf\<close>, \<open>infinity\<close> and \<open>nan\<close> in any case. Anything
  else is a \<open>ValueError\<close>.
\<close>

definition is_space :: "char \<Rightarrow> bool" where
  "is_space c = (let n = (of_char c :: nat) in (9 \<le> n \<and> n \<le> 13) \<or> (28 \<le> n \<and> n \<le> 32))"

definition strip :: "string \<Rightarrow> string" where
  "strip s = rev (dropWhile is_space (rev (dropWhile is_space s)))"

definition is_digit :: "char \<Rightarrow> bool" where
  "is_digit c = (CHR ''0'' \<le> c \<and> c \<le> CHR ''9'')"

definition digit_val :: "char \<Rightarrow> int" where
  "digit_val c = int (of_char c) - 48"

definition int_of_digits :: "string \<Rightarrow> int" where
  "int_of_digits ds = foldl (\<lambda>n c. 10 * n + digit_val c) 0 ds"

fun digitpart_rest :: "string \<Rightarrow> string \<times> string" where
  "digitpart_rest [] = ([], [])"
| "digitpart_rest [c] = (if is_digit c then ([c], []) else ([], [c]))"
| "digitpart_rest (c # d # cs) =
     (if is_digit c then (let (ds, r) = digitpart_rest (d # cs) in (c # ds, r))
      else if c = CHR ''_'' \<and> is_digit d then (let (ds, r) = digitpart_rest cs in (d # ds, r))
      else ([], c # d # cs))"

definition digitpart :: "string \<Rightarrow> (string \<times> string) option" where
  "digitpart s =
     (case s of
        [] \<Rightarrow> None
      | c # cs \<Rightarrow>
          if is_digit c then (let (ds, r) = digitpart_rest cs in Some (c # ds, r)) else None)"

definition split_sign :: "string \<Rightarrow> bool \<times> string" where
  "split_sign s =
     (case s of
        [] \<Rightarrow> (False, [])
      | c # cs \<Rightarrow>
          if c = CHR ''-'' then (True, cs) else if c = CHR ''+'' then (False, cs) else (False, s))"

definition py_int :: "string \<Rightarrow> py_error + int" where
  "py_int s =
     (let (neg, u) = split_sign (strip s)
      in case digitpart u of
           Some (ds, []) \<Rightarrow> Inr (if neg then - int_of_digits ds else int_of_digits ds)
         | _ \<Rightarrow> Inl ValueError)"

definition number :: "string \<Rightarrow> (string \<times> string \<times> string) option" where
  "number s =
     (case digitpart s of
        Some (ip, r) \<Rightarrow>
          (case r of
             [] \<Rightarrow> Some (ip, [], [])
           | c # r1 \<Rightarrow>
               if c = CHR ''.''
               then (case digitpart r1 of
                       Some (fp, r2) \<Rightarrow> Some (ip, fp, r2)
                     | None \<Rightarrow> Some (ip, [], r1))
               else Some (ip, [], r))
      | None \<Rightarrow>
          (case s of
             [] \<Rightarrow> None
           | c # r1 \<Rightarrow>
               if c = CHR ''.''
               then (case digitpart r1 of Some (fp, r2) \<Rightarrow> Some ([], fp, r2) | None \<Rightarrow> None)
               else None))"

definition exponent :: "string \<Rightarrow> int option" where
  "exponent s =
     (case s of
        [] \<Rightarrow> Some 0
      | c # r \<Rightarrow>
          if c = CHR ''e'' \<or> c = CHR ''E''
          then (let (neg, u) = split_sign r
                in case digitpart u of
                     Some (ds, []) \<Rightarrow> Some (if neg then - int_of_digits ds else int_of_digits ds)
                   | _ \<Rightarrow> None)
          else None)"

definition py_float :: "string \<Rightarrow> py_error + pyfloat" where
  "py_float s =
     (let (neg, u) = split_sign (strip s)
      in if lower u = ''inf'' \<or> lower u = ''infinity'' then Inr (Infinite neg)
         else if lower u = ''nan'' then Inr NaN
         else case number u of
                None \<Rightarrow> Inl ValueError
              | Some (ip, fp, r) \<Rightarrow>
                  (case exponent r of
                     None \<Rightarrow> Inl ValueError
                   | Some ex \<Rightarrow>
                       (let k = ex - int (length fp); m = int_of_digits (ip @ fp)
                        in Inr (float_of_ratio neg
                                  (m * (if 0 \<le> k then 10 ^ nat k else 1))
                                  (if 0 \<le> k then 1 else 10 ^ nat (- k))))))"

text \<open>\<open>s.replace(old, new)\<close> for single characters, \<open>s.split(sep, 1)\<close> and
  \<open>s.endswith(ending)\<close>.\<close>

definition replace_char :: "char \<Rightarrow> char \<Rightarrow> string \<Rightarrow> string" where
  "replace_char old new s = map (\<lambda>c. if c = old then new else c) s"

definition py_split1 :: "char \<Rightarrow> string \<Rightarrow> string list" where
  "py_split1 sep s =
     (case dropWhile (\<lambda>c. c \<noteq> sep) s of
        [] \<Rightarrow> [s]
      | _ # r \<Rightarrow> [takeWhile (\<lambda>c. c \<noteq> sep) s, r])"

definition endswith :: "string \<Rightarrow> string \<Rightarrow> bool" where
  "endswith s ending = (length ending \<le> length s \<and> drop (length s - length ending) s = ending)"

section \<open>The dose normalizer \<open>to_cgy\<close>\<close>

text \<open>
  \<open>to_cgy\<close> returns a two-entry dictionary: \<open>TotalDose\<close> is the original text or a
  float, \<open>Fractions\<close> is \<open>None\<close> or an \<open>int\<close>. The module also applies it to the missing
  dose specifier of a name without one, which is \<open>None\<close> here and comes back unchanged.
  Every \<open>except ValueError\<close> branch returns the same dictionary, \<open>unparsed text\<close>. The
  \<open>OverflowError\<close> of \<open>dose * fractions\<close> is not caught by the source.
\<close>

datatype total = Missing | Text string | Dose pyfloat

record dose_dict =
  TotalDose :: total
  Fractions :: "int option"

definition unparsed :: "string option \<Rightarrow> py_error + dose_dict" where
  "unparsed text =
     Inr \<lparr>TotalDose = (case text of None \<Rightarrow> Missing | Some t \<Rightarrow> Text t), Fractions = None\<rparr>"

text \<open>The block \<open># Convert Gy to cGy\<close>: the dose of \<open>dose_str\<close>, or \<open>ValueError\<close>.\<close>

definition dose_value :: "string \<Rightarrow> py_error + pyfloat" where
  "dose_value dose_str =
     (if endswith dose_str ''Gy''
      then (case py_float (take (length dose_str - 2) dose_str) of
              Inl err \<Rightarrow> Inl err
            | Inr dose \<Rightarrow> float_mul_int dose 100)
      else py_float dose_str)"

definition to_cgy :: "string option \<Rightarrow> py_error + dose_dict" where
  "to_cgy text_arg =
     (case text_arg of
        None \<Rightarrow> unparsed None
      | Some text \<Rightarrow>
          if text = [] then unparsed (Some text)
          else
            let text_cnv1 = replace_char CHR ''p'' CHR ''.'' text;
                dose_parts = py_split1 CHR ''x'' text_cnv1
            in case (if 1 < length dose_parts
                     then (case py_int (dose_parts ! 1) of
                             Inl _ \<Rightarrow> None
                           | Inr n \<Rightarrow> Some (Some n))
                     else Some None) of
                 None \<Rightarrow> unparsed (Some text)
               | Some fractions \<Rightarrow>
                   (let dose_str = dose_parts ! 0
                    in case dose_value dose_str of
                         Inl _ \<Rightarrow> unparsed (Some text)
                       | Inr dose \<Rightarrow>
                           (case (case fractions of
                                    None \<Rightarrow> Inr dose
                                  | Some n \<Rightarrow>
                                      if n \<noteq> 0 then float_mul_int dose n else Inr dose) of
                              Inl err \<Rightarrow> Inl err
                            | Inr total_dose \<Rightarrow>
                                Inr \<lparr>TotalDose = Dose total_dose, Fractions = fractions\<rparr>)))"

section \<open>Regular expressions of Python's \<open>re\<close> module\<close>

text \<open>
  The patterns of the module are written with the constructs below. A pattern is matched
  by backtracking: \<open>rmatch n r (s, c)\<close> lists, in the order in which \<open>re\<close> tries them,
  the ways in which \<open>r\<close> can match a prefix of the remaining input \<open>s\<close>, each with the
  rest of the input and the named groups set so far; \<open>n\<close> is the length of the whole
  input, which \<open>^\<close> needs. Groups set on a path that is given up are not seen on
  another path. An unnamed group \<open>(...)\<close> does not show in \<open>groupdict()\<close> and is written
  as its body. An unbounded repetition is tried at most once per remaining character
  beyond its minimum: every repeated body of this module consumes a character.
\<close>

datatype citem = C char | R char char

datatype regex =
    Lit string
  | Dot
  | Set "citem list"
  | NSet "citem list"
  | Eps
  | Seq regex regex
  | Alt regex regex
  | Group string regex
  | Rep nat "nat option" regex
  | Lazy nat "nat option" regex
  | NotAhead regex
  | Bol
  | Eol

type_synonym caps = "string \<Rightarrow> string option"
type_synonym mstate = "string \<times> caps"

fun in_item :: "char \<Rightarrow> citem \<Rightarrow> bool" where
  "in_item x (C c) = (x = c)"
| "in_item x (R lo hi) = (lo \<le> x \<and> x \<le> hi)"

definition in_class :: "citem list \<Rightarrow> char \<Rightarrow> bool" where
  "in_class items x = list_ex (in_item x) items"

definition newline :: char where
  "newline = CHR 0x0A"

fun strip_prefix :: "string \<Rightarrow> string \<Rightarrow> string option" where
  "strip_prefix [] s = Some s"
| "strip_prefix (t # ts) [] = None"
| "strip_prefix (t # ts) (x # xs) = (if t = x then strip_prefix ts xs else None)"

fun iter :: "(mstate \<Rightarrow> mstate list) \<Rightarrow> bool \<Rightarrow> nat \<Rightarrow> nat \<Rightarrow> mstate \<Rightarrow> mstate list" where
  "iter f greedy mn 0 st = (if mn = 0 then [st] else [])"
| "iter f greedy mn (Suc mx) st =
     (let more = concat (map (iter f greedy (mn - 1) mx) (f st));
          stop = (if mn = 0 then [st] else [])
      in if greedy then more @ stop else stop @ more)"

definition bound :: "nat \<Rightarrow> nat option \<Rightarrow> string \<Rightarrow> nat" where
  "bound mn mx s = (case mx of Some k \<Rightarrow> k | None \<Rightarrow> mn + length s)"

fun rmatch :: "nat \<Rightarrow> regex \<Rightarrow> mstate \<Rightarrow> mstate list" where
  "rmatch n (Lit t) (s, c) = (case strip_prefix t s of None \<Rightarrow> [] | Some r \<Rightarrow> [(r, c)])"
| "rmatch n Dot (s, c) = (case s of [] \<Rightarrow> [] | x # r \<Rightarrow> if x \<noteq> newline then [(r, c)] else [])"
| "rmatch n (Set items) (s, c) =
     (case s of [] \<Rightarrow> [] | x # r \<Rightarrow> if in_class items x then [(r, c)] else [])"
| "rmatch n (NSet items) (s, c) =
     (case s of [] \<Rightarrow> [] | x # r \<Rightarrow> if \<not> in_class items x then [(r, c)] else [])"
| "rmatch n Eps st = [st]"
| "rmatch n (Seq a b) st = concat (map (rmatch n b) (rmatch n a st))"
| "rmatch n (Alt a b) st = rmatch n a st @ rmatch n b st"
| "rmatch n (Group g r) (s, c) =
     map (\<lambda>(s', c'). (s', c'(g \<mapsto> take (length s - length s') s))) (rmatch n r (s, c))"
| "rmatch n (Rep mn mx r) (s, c) = iter (rmatch n r) True mn (bound mn mx s) (s, c)"
| "rmatch n (Lazy mn mx r) (s, c) = iter (rmatch n r) False mn (bound mn mx s) (s, c)"
| "rmatch n (NotAhead r) st = (if rmatch n r st = [] then [st] else [])"
| "rmatch n Bol (s, c) = (if length s = n then [(s, c)] else [])"
| "rmatch n Eol (s, c) = (if s = [] \<or> s = [newline] then [(s, c)] else [])"

text \<open>\<open>Pattern.fullmatch\<close>: the first way of matching that ends at the end of the
  string. \<open>Pattern.search\<close>: the first way of matching at the leftmost position that has
  one.\<close>

definition fullmatch :: "regex \<Rightarrow> string \<Rightarrow> caps option" where
  "fullmatch r s =
     (case filter (\<lambda>(rest, c). rest = []) (rmatch (length s) r (s, Map.empty)) of
        [] \<Rightarrow> None
      | (_, c) # _ \<Rightarrow> Some c)"

fun search_from :: "nat \<Rightarrow> regex \<Rightarrow> string \<Rightarrow> caps option" where
  "search_from n r [] = (case rmatch n r ([], Map.empty) of [] \<Rightarrow> None | (_, c) # _ \<Rightarrow> Some c)"
| "search_from n r (x # xs) =
     (case rmatch n r (x # xs, Map.empty) of
        [] \<Rightarrow> search_from n r xs
      | (_, c) # _ \<Rightarrow> Some c)"

definition search :: "regex \<Rightarrow> string \<Rightarrow> caps option" where
  "search r s = search_from (length s) r s"

text \<open>The names of the named groups of a pattern, in the order of their opening
  parentheses: the keys of \<open>groupdict()\<close> and the columns of \<open>str.extract\<close>.\<close>

fun group_names :: "regex \<Rightarrow> string list" where
  "group_names (Seq a b) = group_names a @ group_names b"
| "group_names (Alt a b) = group_names a @ group_names b"
| "group_names (Group g r) = g # group_names r"
| "group_names (Rep mn mx r) = group_names r"
| "group_names (Lazy mn mx r) = group_names r"
| "group_names (NotAhead r) = group_names r"
| "group_names _ = []"

text \<open>Writing patterns: \<open>''.join([...])\<close> and the quantifiers.\<close>

fun seq :: "regex list \<Rightarrow> regex" where
  "seq [] = Eps"
| "seq [r] = r"
| "seq (r # rs) = Seq r (seq rs)"

fun alt :: "regex list \<Rightarrow> regex" where
  "alt [] = NSet []"
| "alt [r] = r"
| "alt (r # rs) = Alt r (alt rs)"

abbreviation opt :: "regex \<Rightarrow> regex" where "opt r \<equiv> Rep 0 (Some 1) r"
abbreviation star :: "regex \<Rightarrow> regex" where "star r \<equiv> Rep 0 None r"
abbreviation plus :: "regex \<Rightarrow> regex" where "plus r \<equiv> Rep 1 None r"
abbreviation upper :: regex where "upper \<equiv> Set [R CHR ''A'' CHR ''Z'']"
abbreviation lowercase :: regex where "lowercase \<equiv> Set [R CHR ''a'' CHR ''z'']"
abbreviation digit :: regex where "digit \<equiv> Set [R CHR ''0'' CHR ''9'']"

section \<open>The patterns\<close>

definition not_evaluated_pat :: regex where
  "not_evaluated_pat =
     seq [Group ''NotEvalChar'' (Set [C CHR ''z'', C CHR ''Z'', C CHR ''_'']),
          Group ''NotEvaluated'' (star Dot)]"

definition basic_sub_structure_pat :: regex where
  "basic_sub_structure_pat =
     seq [upper,
          opt (alt [plus upper, plus lowercase]),
          opt (Set [C CHR ''s'', C CHR ''i'']),
          opt (Set [C CHR ''~'']),
          Rep 0 (Some 2) digit,
          opt (Lit ''_''),
          opt (Lit ''^'')]"

definition basic_structure_pat :: regex where
  "basic_structure_pat = Group ''StructureName'' (plus basic_sub_structure_pat)"

definition major_category_pat :: regex where
  "major_category_pat =
     seq [Bol,
          Group ''StructureCategory''
            (seq [alt [Lit ''A'', Lit ''V'', Lit ''LN'', Lit ''CN'', Lit ''Glnd'',
                       Lit ''Bone'', Lit ''Musc'', Lit ''VB'', Lit ''Sinus''],
                  opt (Group ''Pleural'' (Set [C CHR ''s'', C CHR ''i'']))]),
          opt (seq [Lit ''_'', Group ''Remainder'' (star Dot)]),
          Eol]"

definition custom_oar_qualifier_pat :: regex where
  "custom_oar_qualifier_pat =
     seq [Bol,
          Group ''Remainder'' (star (NSet [C CHR ''^''])),
          opt (seq [Lit ''^'', Group ''CustomStructure'' (plus Dot)])]"

definition vb_ref_pat :: regex where
  "vb_ref_pat =
     seq [Bol,
          Group ''VertebraeLevel'' (Set [C CHR ''C'', C CHR ''T'', C CHR ''L'', C CHR ''S'']),
          Group ''VertebraeNumber'' (Rep 0 (Some 2) digit),
          opt (seq [Lit ''_'', Group ''Remainder'' (star Dot)]),
          Eol]"

definition cn_ref_pat :: regex where
  "cn_ref_pat =
     seq [Bol,
          Group ''NerveLevel'' (plus (Set [C CHR ''I'', C CHR ''V'', C CHR ''X''])),
          opt (seq [Lit ''_'', Group ''Remainder'' (star Dot)]),
          Eol]"

definition nn_ref_pat :: regex where
  "nn_ref_pat =
     seq [Bol,
          Group ''NeckNode'' (Lit ''Neck''),
          Lit ''_'',
          Group ''NodeLevel''
            (seq [plus (Set [C CHR ''I'', C CHR ''V'', C CHR ''X'']),
                  opt (Set [C CHR ''A'', C CHR ''B''])]),
          opt (seq [Lit ''_'', Group ''Remainder'' (star Dot)]),
          Eol]"

definition spatial_pat :: regex where
  "spatial_pat =
     seq [Bol,
          opt (seq [Group ''Remainder'' (Lazy 0 None Dot), Lit ''_'']),
          Group ''SpatialIndicator''
            (plus (alt [Lit ''L'', Lit ''R'', Lit ''A'', Lit ''P'', Lit ''I'', Lit ''S'',
                        Lit ''NAdj'', Lit ''Dist'', Lit ''Prox'',
                        Lit ''RUL'', Lit ''RLL'', Lit ''LUL'', Lit ''LLL''])),
          Eol]"

definition prv_pat :: regex where
  "prv_pat =
     seq [Bol,
          Group ''Remainder'' (Lazy 0 None Dot),
          opt (Lit ''_''),
          Group ''Prv'' (seq [Lit ''PRV'', opt (Group ''PrvSize'' (Rep 1 (Some 2) digit))]),
          Eol]"

definition partial_pat :: regex where
  "partial_pat =
     seq [Bol,
          Group ''Remainder'' (Lazy 0 None Dot),
          Group ''Partial'' (Lit ''~''),
          Eol]"

definition base_structure_pat :: regex where
  "base_structure_pat =
     seq [Bol,
          Group ''BaseStructure''
            (seq [Rep 1 (Some 2) (seq [upper, alt [plus upper, plus lowercase]]),
                  opt (Group ''Pleural'' (Set [C CHR ''s'', C CHR ''i'']))]),
          star (alt [seq [Lit ''_'',
                          Group ''StructureQualifier''
                            (seq [upper, alt [plus upper, plus lowercase]])],
                     seq [opt (Lit ''_''),
                          Group ''StructureNumber'' (seq [opt upper, plus digit])]]),
          Group ''Remainder'' (star Dot),
          Eol]"

definition target_type_pat :: regex where
  "target_type_pat =
     alt [Lit ''GTV'', Lit ''CTV'', Lit ''PTV'', Lit ''ITV'', Lit ''IGTV'', Lit ''ICTV'',
          Lit ''PTV!'']"

definition target_classifier_pat :: regex where
  "target_classifier_pat =
     opt (alt [Lit ''par'', Lit ''vas'', Lit ''sb'', Lit ''n'', Lit ''p'', Lit ''v''])"

definition target_number_pat :: regex where
  "target_number_pat = opt (Rep 1 (Some 2) digit)"

definition base_target_pat :: regex where
  "base_target_pat =
     Group ''BaseTarget''
       (seq [Group ''TargetType'' target_type_pat,
             opt (Group ''TargetClassifier'' target_classifier_pat),
             opt (Group ''TargetNumber'' target_number_pat)])"

definition modality_pat :: regex where
  "modality_pat =
     opt (seq [Lit ''_'',
               Group ''Modality''
                 (Rep 1 (Some 2)
                    (seq [alt [Lit ''CT'', Lit ''PT'', Lit ''MR'', Lit ''US'', Lit ''SP''],
                          Rep 0 (Some 2) digit]))])"

definition struct_ind_pat :: regex where
  "struct_ind_pat =
     opt (seq [Lit ''_'',
               NotAhead (alt [Lit ''Hig'', Lit ''Mid'', Lit ''Low'']),
               Group ''StructureIndicator'' (plus basic_sub_structure_pat)])"

text \<open>The module binds \<open>target_crop_pat\<close> twice. This is the first binding, the one
  \<open>target_pattern\<close> is built from.\<close>

definition target_crop_pat :: regex where
  "target_crop_pat =
     opt (Group ''ExternalCrop''
            (seq [Group ''Sign'' (Lit ''-''), Group ''Size'' (Rep 2 (Some 2) digit)]))"

definition rel_dose_pat :: regex where
  "rel_dose_pat =
     Group ''RelativeDose''
       (alt [Lit ''High'', Lit ''Low'',
             seq [Lit ''Mid'', opt (Group ''RelativeDoseLevel'' (Rep 2 (Some 2) digit))]])"

definition numeric_dose_pat :: regex where
  "numeric_dose_pat =
     Group ''NumericDose''
       (seq [plus digit, opt (Set [C CHR ''.'', C CHR ''p'']), star digit,
             star (Set [C CHR ''G'', C CHR ''y''])])"

definition dose_fraction_pat :: regex where
  "dose_fraction_pat =
     Group ''DoseFractionation''
       (seq [plus digit, opt (Set [C CHR ''.'', C CHR ''p'']), star digit,
             star (Set [C CHR ''G'', C CHR ''y'']), Lit ''x'', plus digit])"

definition dose_specifier :: regex where
  "dose_specifier =
     opt (seq [Lit ''_'',
               Group ''DoseSpecifier'' (alt [rel_dose_pat, dose_fraction_pat, numeric_dose_pat])])"

definition target_custom_qualifier_pat :: regex where
  "target_custom_qualifier_pat = opt (seq [Lit ''^'', Group ''CustomTarget'' (plus Dot)])"

definition target_pattern :: regex where
  "target_pattern =
     seq [base_target_pat, modality_pat, struct_ind_pat, dose_specifier, target_crop_pat,
          target_custom_qualifier_pat]"

definition cropped_oar_pat :: regex where
  "cropped_oar_pat = Group ''CroppedOAR'' (plus basic_sub_structure_pat)"

text \<open>The second binding of \<open>target_crop_pat\<close>, the one \<open>oar_crop_pat\<close> is built from.\<close>

definition target_crop_pat2 :: regex where
  "target_crop_pat2 =
     Group ''TargetCrop'' (seq [target_type_pat, opt target_classifier_pat, opt target_number_pat])"

definition oar_crop_pat :: regex where
  "oar_crop_pat = Group ''OARCrop'' (seq [cropped_oar_pat, Lit ''-'', target_crop_pat2])"

definition all_structure_pattern :: regex where
  "all_structure_pattern =
     alt [not_evaluated_pat, target_pattern, oar_crop_pat, basic_structure_pat]"

definition structure_pat :: regex where
  "structure_pat = all_structure_pattern"

definition grp :: "caps option \<Rightarrow> string \<Rightarrow> string option" where
  "grp m g = (case m of None \<Rightarrow> None | Some c \<Rightarrow> c g)"

section \<open>Applying the patterns to a structure name\<close>

text \<open>
  The module works on a table with one row per name. Each row is computed from its own
  name alone, so the model is the function from a name to its row. A missing value
  (\<open>None\<close> or \<open>NaN\<close>) of a text column is \<open>None\<close>. The row is that of a table in which
  every column exists, that is, of a batch in which some name matched each kind of
  pattern.
\<close>

record names_row =
  columns :: "(string \<times> string option) list"
  Remainder :: "string option"

text \<open>
  \<open>extract_name_group(names, re_pattern, match_column, idx)\<close> for one row; \<open>idx\<close> is the
  row's entry in the mask (\<open>True\<close> when no mask is given). \<open>str.extract\<close> searches the
  row's \<open>Remainder\<close> and gives one column per named group; the left merge renames a new
  column whose name is taken, by the suffix \<open>_ex\<close>; \<open>Remainder_ex\<close> replaces \<open>Remainder\<close>
  where the match column is not missing, and is dropped. The columns \<open>StructureName\<close> and
  \<open>Unmatched\<close>, carried along and dropped at the end, are no group's name and are left
  out.
\<close>

definition extract_name_group :: "names_row \<Rightarrow> regex \<Rightarrow> string \<Rightarrow> bool \<Rightarrow> names_row" where
  "extract_name_group names re_pattern match_column idx =
     (let extr_names =
            (if idx then (case Remainder names of
                            None \<Rightarrow> None
                          | Some text \<Rightarrow> search re_pattern text)
             else None);
          taken = map fst (columns names);
          new_columns =
            map (\<lambda>g. (if g \<in> set taken then g @ ''_ex'' else g, grp extr_names g))
                (filter (\<lambda>g. g \<noteq> ''Remainder'') (group_names re_pattern));
          merged = columns names @ new_columns;
          nt_idx = (case map_of merged match_column of Some (Some v) \<Rightarrow> False | _ \<Rightarrow> True)
      in \<lparr>columns = merged,
          Remainder = (if nt_idx then Remainder names else grp extr_names ''Remainder'')\<rparr>)"

definition column :: "names_row \<Rightarrow> string \<Rightarrow> string option" where
  "column names k = (case map_of (columns names) k of Some v \<Rightarrow> v | None \<Rightarrow> None)"

text \<open>The section \<open>Parse Non-Target Structures\<close>, for a row whose \<open>StructureName\<close> is
  not missing.\<close>

definition reduce_name :: "string \<Rightarrow> names_row" where
  "reduce_name structure_name =
     (let names = \<lparr>columns = [], Remainder = Some structure_name\<rparr>;
          names = extract_name_group names major_category_pat ''StructureCategory'' True;
          names = extract_name_group names custom_oar_qualifier_pat ''CustomStructure'' True;
          is_vb = (column names ''StructureCategory'' = Some ''VB'');
          names = extract_name_group names vb_ref_pat ''VertebraeLevel'' is_vb;
          is_cn = (column names ''StructureCategory'' = Some ''CN'');
          names = extract_name_group names cn_ref_pat ''NerveLevel'' is_cn;
          is_ln = (column names ''StructureCategory'' = Some ''LN'');
          names = extract_name_group names nn_ref_pat ''NeckNode'' is_ln;
          names = extract_name_group names spatial_pat ''SpatialIndicator'' True;
          names = extract_name_group names prv_pat ''Prv'' True;
          names = extract_name_group names partial_pat ''Partial'' True;
          names = extract_name_group names base_structure_pat ''BaseStructure'' True
      in names)"

text \<open>
  The rest of the module, for one name: \<open>structure_pat.fullmatch\<close> and its
  \<open>groupdict()\<close>, the dose values, the first \<open>Unmatched\<close> flag (every column of the row
  is missing), the reduction of \<open>StructureName\<close> where there is one (the row is absent
  from \<open>names\<close> otherwise, and the join leaves its columns missing), and the update of
  \<open>Unmatched\<close> from the final \<open>Remainder\<close>: \<open>Um2\<close> is \<open>Remainder.str.len() > 0\<close> with
  missing values filled by \<open>False\<close>, and \<open>Unmatched\<close> becomes \<open>True\<close> where \<open>Um2\<close> holds.
\<close>

record parsed_row =
  Structure :: string
  matched :: "(string \<times> string option) list"
  dose_values :: dose_dict
  Unmatched :: bool
  names :: "names_row option"



text \<open>Reading results: a group is present when it is set to a non-empty text.\<close>

definition present :: "caps \<Rightarrow> string \<Rightarrow> bool" where
  "present c g = (case c g of None \<Rightarrow> False | Some v \<Rightarrow> v \<noteq> [])"

text \<open>The part of \<open>target_pattern\<close> after the base target.\<close>

definition target_tail :: regex where
  "target_tail =
     seq [modality_pat, struct_ind_pat, dose_specifier, target_crop_pat,
          target_custom_qualifier_pat]"


section \<open>Properties of the test functions\<close>

text \<open>
  Claim C9. For every string, \<open>no_spaces\<close> returns the integer \<open>-2\<close> when the string
  contains a space and \<open>-1\<close> when it does not; the result is never the boolean
  \<open>False\<close> and it is always true as a truth value, also for strings with spaces.
\<close>

theorem no_spaces_always_truthy:
  "no_spaces s = PInt (if CHR '' '' \<in> set s then - 2 else - 1)
   \<and> truthy (no_spaces s) \<and> no_spaces s \<noteq> PBool False"
  by (simp add: no_spaces_def)

text \<open>
  Claim C8. On the list \<open>["Lungs", "lungs"]\<close>, which holds a case-insensitive
  duplicate, \<open>no_dup\<close> returns the integer \<open>-2\<close>, which is true as a truth value: the
  duplicate is not flagged. On \<open>["Lungs", "Lung"]\<close> it returns \<open>-1\<close>. Neither result is
  a boolean.
\<close>

theorem no_dup_lungs_not_flagged:
  "no_dup [''Lungs'', ''lungs''] = PInt (- 2)
   \<and> truthy (no_dup [''Lungs'', ''lungs''])
   \<and> no_dup [''Lungs'', ''Lung''] = PInt (- 1)"
  by code_simp

text \<open>
  Claim C4. The function \<open>not_evaluated\<close> answers \<open>False\<close> for a name that starts with
  the lower-case \<open>z\<close>, and \<open>True\<close> for names that start with \<open>Z\<close> or \<open>_\<close>.
\<close>

theorem not_evaluated_lowercase_z:
  "not_evaluated ''zPTV'' = Inr False
   \<and> not_evaluated ''ZPTV'' = Inr True \<and> not_evaluated ''_PTV'' = Inr True"
  by (simp add: not_evaluated_def exclude_prefixes_def)

section \<open>Properties of the dose normalizer\<close>

text \<open>
  Claim C2. \<open>to_cgy("50p4Gy")\<close> is total dose 5040.0 with no fraction count;
  \<open>to_cgy("2000x3")\<close> and \<open>to_cgy("20Gyx3")\<close> are 6000.0 with 3 fractions;
  \<open>to_cgy("")\<close> and \<open>to_cgy("abc")\<close> return the original text with no fraction count.
  The float \<open>315 * 2^4\<close> is 5040.0 and \<open>375 * 2^4\<close> is 6000.0.
\<close>

theorem to_cgy_spec_examples:
  "to_cgy (Some ''50p4Gy'') = Inr \<lparr>TotalDose = Dose (Finite False 315 4), Fractions = None\<rparr>
   \<and> to_cgy (Some ''2000x3'') = Inr \<lparr>TotalDose = Dose (Finite False 375 4), Fractions = Some 3\<rparr>
   \<and> to_cgy (Some ''20Gyx3'') = Inr \<lparr>TotalDose = Dose (Finite False 375 4), Fractions = Some 3\<rparr>
   \<and> to_cgy (Some []) = Inr \<lparr>TotalDose = Text [], Fractions = None\<rparr>
   \<and> to_cgy (Some ''abc'') = Inr \<lparr>TotalDose = Text ''abc'', Fractions = None\<rparr>
   \<and> float_value (Finite False 315 4) = Some 5040
   \<and> float_value (Finite False 375 4) = Some 6000"
  by code_simp

lemma py_split1_zero_fraction:
  assumes "CHR ''x'' \<notin> set dp"
  shows "py_split1 CHR ''x'' (replace_char CHR ''p'' CHR ''.'' (dp @ ''x0''))
         = [replace_char CHR ''p'' CHR ''.'' dp, ''0'']"
proof -
  let ?r = "replace_char CHR ''p'' CHR ''.''"
  have nx: "\<forall>c \<in> set (?r dp). c \<noteq> CHR ''x''"
    using assms by (auto simp: replace_char_def)
  have app: "?r (dp @ ''x0'') = ?r dp @ ''x0''"
    by (simp add: replace_char_def)
  have tw: "takeWhile (\<lambda>c. c \<noteq> CHR ''x'') (?r dp @ ''x0'') = ?r dp"
    using nx by simp
  have dw: "dropWhile (\<lambda>c. c \<noteq> CHR ''x'') (?r dp @ ''x0'') = ''x0''"
    using nx by simp
  show ?thesis
    unfolding app py_split1_def tw dw by simp
qed

lemma py_int_zero: "py_int ''0'' = Inr 0"
  by code_simp

text \<open>
  Claim C10. For every dose string \<open>dp + "x0"\<close> whose dose part \<open>dp\<close> (the text before
  the first \<open>x\<close>) parses as the dose \<open>d\<close>, \<open>to_cgy\<close> returns fraction count 0 and total
  dose \<open>d\<close>: the multiplication by the fraction count is skipped when the count is 0.
\<close>

theorem to_cgy_zero_fractions:
  assumes "CHR ''x'' \<notin> set dp"
    and "dose_value (replace_char CHR ''p'' CHR ''.'' dp) = Inr d"
  shows "to_cgy (Some (dp @ ''x0'')) = Inr \<lparr>TotalDose = Dose d, Fractions = Some 0\<rparr>"
  using assms(2) by (simp add: to_cgy_def py_split1_zero_fraction[OF assms(1)] py_int_zero)

text \<open>For \<open>"200x0"\<close> the total dose is 200.0, where \<open>200.0 * 0\<close> would be 0.0.\<close>

theorem to_cgy_zero_fractions_witness:
  "CHR ''x'' \<notin> set ''200''
   \<and> dose_value (replace_char CHR ''p'' CHR ''.'' ''200'') = Inr (Finite False 25 3)
   \<and> to_cgy (Some ''200x0'') = Inr \<lparr>TotalDose = Dose (Finite False 25 3), Fractions = Some 0\<rparr>
   \<and> float_value (Finite False 25 3) = Some 200
   \<and> float_mul_int (Finite False 25 3) 0 = Inr (Finite False 0 0)"
proof -
  have a: "CHR ''x'' \<notin> set ''200''" by simp
  have b: "dose_value (replace_char CHR ''p'' CHR ''.'' ''200'') = Inr (Finite False 25 3)"
    by code_simp
  have c: "float_value (Finite False 25 3) = Some 200" by code_simp
  have d: "float_mul_int (Finite False 25 3) 0 = Inr (Finite False 0 0)" by code_simp
  show ?thesis using a b c d to_cgy_zero_fractions[OF a b] by simp
qed

section \<open>Properties of the matcher\<close>

lemma iter_invariant:
  assumes step: "\<And>a b. b \<in> set (f a) \<Longrightarrow> Rel a b"
    and refl: "\<And>a. Rel a a"
    and trans: "\<And>a b c. Rel a b \<Longrightarrow> Rel b c \<Longrightarrow> Rel a c"
  shows "st' \<in> set (iter f g mn mx st) \<Longrightarrow> Rel st st'"
proof (induction mx arbitrary: mn st)
  case 0
  then show ?case by (auto simp: refl split: if_splits)
next
  case (Suc mx)
  from Suc.prems consider
      (stop) "st' = st"
    | (more) a where "a \<in> set (f st)" "st' \<in> set (iter f g (mn - 1) mx a)"
    by (auto simp: Let_def split: if_splits)
  then show ?case
  proof cases
    case stop
    then show ?thesis by (simp add: refl)
  next
    case more
    then show ?thesis using Suc.IH step trans by blast
  qed
qed

lemma strip_prefix_Some: "strip_prefix t s = Some r \<longleftrightarrow> s = t @ r"
  by (induction t s rule: strip_prefix.induct) auto

lemma rmatch_Lit_iff:
  "(s', c') \<in> set (rmatch n (Lit t) (s, c)) \<longleftrightarrow> s = t @ s' \<and> c' = c"
proof (cases "strip_prefix t s")
  case None
  then show ?thesis using strip_prefix_Some[of t s s'] by auto
next
  case (Some r)
  then show ?thesis using strip_prefix_Some[of t s r] by auto
qed

lemma rmatch_suffix: "(s', c') \<in> set (rmatch n r (s, c)) \<Longrightarrow> suffix s' s"
proof (induction r arbitrary: s c s' c')
  case (Lit t)
  then show ?case
    unfolding rmatch_Lit_iff by (simp add: suffix_def)
next
  case (Seq a b)
  then show ?case by (fastforce intro: suffix_order.trans)
next
  case (Rep mn mx r)
  have "(\<lambda>a b. suffix (fst b) (fst a)) (s, c) (s', c')"
    by (rule iter_invariant[where f = "rmatch n r" and g = True and mn = mn
          and mx = "bound mn mx s"])
       (use Rep in \<open>auto intro: suffix_order.trans\<close>)
  then show ?case by simp
next
  case (Lazy mn mx r)
  have "(\<lambda>a b. suffix (fst b) (fst a)) (s, c) (s', c')"
    by (rule iter_invariant[where f = "rmatch n r" and g = False and mn = mn
          and mx = "bound mn mx s"])
       (use Lazy in \<open>auto intro: suffix_order.trans\<close>)
  then show ?case by simp
qed (auto split: list.splits if_splits simp: suffix_def)

lemma rmatch_length: "(s', c') \<in> set (rmatch n r (s, c)) \<Longrightarrow> length s' \<le> length s"
  using rmatch_suffix suffix_length_le by blast

lemma rmatch_frame:
  "(s', c') \<in> set (rmatch n r (s, c)) \<Longrightarrow> g \<notin> set (group_names r) \<Longrightarrow> c' g = c g"
proof (induction r arbitrary: s c s' c')
  case (Seq a b)
  then show ?case by fastforce
next
  case (Rep mn mx r)
  have "(\<lambda>a b. snd b g = snd a g) (s, c) (s', c')"
    by (rule iter_invariant[where f = "rmatch n r" and g = True and mn = mn
          and mx = "bound mn mx s"])
       (use Rep in auto)
  then show ?case by simp
next
  case (Lazy mn mx r)
  have "(\<lambda>a b. snd b g = snd a g) (s, c) (s', c')"
    by (rule iter_invariant[where f = "rmatch n r" and g = False and mn = mn
          and mx = "bound mn mx s"])
       (use Lazy in auto)
  then show ?case by simp
qed (auto split: list.splits if_splits option.splits)


lemma rmatch_Seq:
  "(s', c') \<in> set (rmatch n (Seq a b) st)
   \<longleftrightarrow> (\<exists>s1 c1. (s1, c1) \<in> set (rmatch n a st) \<and> (s', c') \<in> set (rmatch n b (s1, c1)))"
  by auto

lemma rmatch_GroupE:
  assumes "(s', c') \<in> set (rmatch n (Group g r) (s, c))"
  obtains c'' where "(s', c'') \<in> set (rmatch n r (s, c))"
    and "c' = c''(g \<mapsto> take (length s - length s') s)"
  using assms by auto

lemma rmatch_SeqE:
  assumes "(s', c') \<in> set (rmatch n (Seq a b) st)"
  obtains s1 c1 where "(s1, c1) \<in> set (rmatch n a st)"
    and "(s', c') \<in> set (rmatch n b (s1, c1))"
  using assms by auto

lemma rmatch_unset:
  "(s', c') \<in> set (rmatch n r (s, Map.empty)) \<Longrightarrow> g \<notin> set (group_names r) \<Longrightarrow> c' g = None"
  using rmatch_frame by fastforce

lemma rmatch_Group_present:
  assumes "(s', c') \<in> set (rmatch n (Group g r) (s, c))" and "length s' < length s"
  shows "present c' g"
proof -
  have "c' g = Some (take (length s - length s') s)"
    using assms(1) by auto
  moreover have "take (length s - length s') s \<noteq> []"
    using assms(2) by auto
  ultimately show ?thesis by (simp add: present_def)
qed

lemma rmatch_Lit_length:
  "(s', c') \<in> set (rmatch n (Lit t) (s, c)) \<Longrightarrow> length s = length t + length s'"
  unfolding rmatch_Lit_iff by simp

lemma rmatch_Set_length:
  "(s', c') \<in> set (rmatch n (Set items) (s, c)) \<Longrightarrow> length s = Suc (length s')"
  by (auto split: list.splits if_splits)

lemma rmatch_at_least_once:
  assumes "(s', c') \<in> set (rmatch n (Rep (Suc m) mx r) (s, c))"
  obtains s1 c1 where "(s1, c1) \<in> set (rmatch n r (s, c))" and "length s' \<le> length s1"
proof (cases "bound (Suc m) mx s")
  case 0
  then show ?thesis using assms by simp
next
  case (Suc k)
  with assms obtain a where a: "a \<in> set (rmatch n r (s, c))"
    and it: "(s', c') \<in> set (iter (rmatch n r) True m k a)"
    by (auto simp: Let_def)
  have "(\<lambda>a b. length (fst b) \<le> length (fst a)) a (s', c')"
    by (rule iter_invariant[where f = "rmatch n r" and g = True and mn = m and mx = k])
       (use it in \<open>auto dest: rmatch_length\<close>)
  then show ?thesis using a that by (cases a) auto
qed

lemma target_type_pat_first:
  assumes "(s', c') \<in> set (rmatch n target_type_pat (s, c))"
  shows "length s' < length s"
    and "\<exists>x t. s = x # t \<and> x \<in> {CHR ''G'', CHR ''C'', CHR ''P'', CHR ''I''}"
  using assms
  unfolding target_type_pat_def alt.simps rmatch.simps(7) set_append Un_iff rmatch_Lit_iff
  by auto

lemma base_target_pat_first:
  assumes "(s1, c1) \<in> set (rmatch n base_target_pat (s, c))"
  shows "present c1 ''BaseTarget''"
    and "\<exists>x t. s = x # t \<and> x \<in> {CHR ''G'', CHR ''C'', CHR ''P'', CHR ''I''}"
proof -
  let ?X = "seq [opt (Group ''TargetClassifier'' target_classifier_pat),
                 opt (Group ''TargetNumber'' target_number_pat)]"
  have unf: "base_target_pat
             = Group ''BaseTarget'' (Seq (Group ''TargetType'' target_type_pat) ?X)"
    by (simp add: base_target_pat_def)
  from assms obtain c2 where in2:
    "(s1, c2) \<in> set (rmatch n (Seq (Group ''TargetType'' target_type_pat) ?X) (s, c))"
    unfolding unf by (rule rmatch_GroupE)
  from in2 obtain s0 c0 where in0: "(s0, c0) \<in> set (rmatch n (Group ''TargetType'' target_type_pat) (s, c))"
    and inX: "(s1, c2) \<in> set (rmatch n ?X (s0, c0))"
    by (rule rmatch_SeqE)
  from in0 obtain c0' where tt: "(s0, c0') \<in> set (rmatch n target_type_pat (s, c))"
    by (rule rmatch_GroupE)
  have "length s1 \<le> length s0" using inX by (rule rmatch_length)
  with target_type_pat_first(1)[OF tt] have "length s1 < length s" by simp
  with assms show "present c1 ''BaseTarget''"
    unfolding unf by (rule rmatch_Group_present)
  show "\<exists>x t. s = x # t \<and> x \<in> {CHR ''G'', CHR ''C'', CHR ''P'', CHR ''I''}"
    using target_type_pat_first(2)[OF tt] .
qed

lemmas pattern_defs =
  not_evaluated_pat_def basic_sub_structure_pat_def basic_structure_pat_def
  target_type_pat_def target_classifier_pat_def target_number_pat_def base_target_pat_def
  modality_pat_def struct_ind_pat_def target_crop_pat_def rel_dose_pat_def
  numeric_dose_pat_def dose_fraction_pat_def dose_specifier_def
  target_custom_qualifier_pat_def target_pattern_def cropped_oar_pat_def
  target_crop_pat2_def oar_crop_pat_def

lemma group_names_not_evaluated_pat:
  "group_names not_evaluated_pat = [''NotEvalChar'', ''NotEvaluated'']"
  by (simp add: pattern_defs)

lemma group_names_target_pattern:
  "group_names target_pattern =
     [''BaseTarget'', ''TargetType'', ''TargetClassifier'', ''TargetNumber'', ''Modality'',
      ''StructureIndicator'', ''DoseSpecifier'', ''RelativeDose'', ''RelativeDoseLevel'',
      ''DoseFractionation'', ''NumericDose'', ''ExternalCrop'', ''Sign'', ''Size'',
      ''CustomTarget'']"
  by (simp add: pattern_defs)

lemma group_names_oar_crop_pat:
  "group_names oar_crop_pat = [''OARCrop'', ''CroppedOAR'', ''TargetCrop'']"
  by (simp add: pattern_defs)

lemma group_names_basic_structure_pat:
  "group_names basic_structure_pat = [''StructureName'']"
  by (simp add: pattern_defs)

lemma target_pattern_unfold: "target_pattern = Seq base_target_pat target_tail"
  by (simp add: target_pattern_def target_tail_def)

lemma group_names_target_tail:
  "group_names target_tail =
     [''Modality'', ''StructureIndicator'', ''DoseSpecifier'', ''RelativeDose'',
      ''RelativeDoseLevel'', ''DoseFractionation'', ''NumericDose'', ''ExternalCrop'',
      ''Sign'', ''Size'', ''CustomTarget'']"
  by (simp add: target_tail_def pattern_defs)

lemma not_evaluated_branch:
  assumes "(s', c') \<in> set (rmatch n not_evaluated_pat (s, Map.empty))"
  shows "present c' ''NotEvalChar'' \<and> c' ''BaseTarget'' = None \<and> c' ''OARCrop'' = None
         \<and> c' ''StructureName'' = None"
proof -
  let ?A = "Group ''NotEvalChar'' (Set [C CHR ''z'', C CHR ''Z'', C CHR ''_''])"
  let ?B = "Group ''NotEvaluated'' (star Dot)"
  have unf: "not_evaluated_pat = Seq ?A ?B"
    by (simp add: not_evaluated_pat_def)
  from assms obtain s1 c1 where a: "(s1, c1) \<in> set (rmatch n ?A (s, Map.empty))"
    and b: "(s', c') \<in> set (rmatch n ?B (s1, c1))"
    unfolding unf by (rule rmatch_SeqE)
  from a obtain c0 where "(s1, c0) \<in> set (rmatch n (Set [C CHR ''z'', C CHR ''Z'', C CHR ''_'']) (s, Map.empty))"
    by (rule rmatch_GroupE)
  then have "length s1 < length s"
    by (auto dest: rmatch_Set_length)
  with a have "present c1 ''NotEvalChar''" by (rule rmatch_Group_present)
  moreover have "c' ''NotEvalChar'' = c1 ''NotEvalChar''"
    using b by (rule rmatch_frame) simp
  ultimately have "present c' ''NotEvalChar''" by (simp add: present_def)
  moreover have "c' ''BaseTarget'' = None" "c' ''OARCrop'' = None" "c' ''StructureName'' = None"
    using assms by (auto intro!: rmatch_unset simp: group_names_not_evaluated_pat)
  ultimately show ?thesis by simp
qed

lemma target_branch:
  assumes "(s', c') \<in> set (rmatch n target_pattern (s, Map.empty))"
  shows "present c' ''BaseTarget'' \<and> c' ''NotEvalChar'' = None \<and> c' ''OARCrop'' = None
         \<and> c' ''StructureName'' = None"
proof -
  from assms obtain s1 c1 where a: "(s1, c1) \<in> set (rmatch n base_target_pat (s, Map.empty))"
    and b: "(s', c') \<in> set (rmatch n target_tail (s1, c1))"
    unfolding target_pattern_unfold by (rule rmatch_SeqE)
  have "present c1 ''BaseTarget''" using a by (rule base_target_pat_first)
  moreover have "c' ''BaseTarget'' = c1 ''BaseTarget''"
    using b by (rule rmatch_frame) (simp add: group_names_target_tail)
  ultimately have "present c' ''BaseTarget''" by (simp add: present_def)
  moreover have "c' ''NotEvalChar'' = None" "c' ''OARCrop'' = None" "c' ''StructureName'' = None"
    using assms by (auto intro!: rmatch_unset simp: group_names_target_pattern)
  ultimately show ?thesis by simp
qed

lemma oar_crop_branch:
  assumes "(s', c') \<in> set (rmatch n oar_crop_pat (s, Map.empty))"
  shows "present c' ''OARCrop'' \<and> c' ''NotEvalChar'' = None \<and> c' ''BaseTarget'' = None
         \<and> c' ''StructureName'' = None"
proof -
  have unf: "oar_crop_pat
             = Group ''OARCrop'' (Seq cropped_oar_pat (Seq (Lit ''-'') target_crop_pat2))"
    by (simp add: oar_crop_pat_def)
  from assms obtain c2 where
    "(s', c2) \<in> set (rmatch n (Seq cropped_oar_pat (Seq (Lit ''-'') target_crop_pat2)) (s, Map.empty))"
    unfolding unf by (rule rmatch_GroupE)
  then obtain s1 c1 where a: "(s1, c1) \<in> set (rmatch n cropped_oar_pat (s, Map.empty))"
    and "(s', c2) \<in> set (rmatch n (Seq (Lit ''-'') target_crop_pat2) (s1, c1))"
    by (rule rmatch_SeqE)
  then obtain s2 c3 where b: "(s2, c3) \<in> set (rmatch n (Lit ''-'') (s1, c1))"
    and c: "(s', c2) \<in> set (rmatch n target_crop_pat2 (s2, c3))"
    by (metis rmatch_SeqE)
  have "length s1 \<le> length s" using a by (rule rmatch_length)
  moreover have "length s1 = Suc (length s2)" using rmatch_Lit_length[OF b] by simp
  moreover have "length s' \<le> length s2" using c by (rule rmatch_length)
  ultimately have "length s' < length s" by simp
  with assms have "present c' ''OARCrop''"
    unfolding unf by (rule rmatch_Group_present)
  moreover have "c' ''NotEvalChar'' = None" "c' ''BaseTarget'' = None" "c' ''StructureName'' = None"
    using assms by (auto intro!: rmatch_unset simp: group_names_oar_crop_pat)
  ultimately show ?thesis by simp
qed

lemma basic_sub_structure_pat_consumes:
  assumes "(s', c') \<in> set (rmatch n basic_sub_structure_pat (s, c))"
  shows "length s' < length s"
proof -
  let ?X = "seq [opt (alt [plus upper, plus lowercase]),
          opt (Set [C CHR ''s'', C CHR ''i'']),
          opt (Set [C CHR ''~'']),
          Rep 0 (Some 2) digit,
          opt (Lit ''_''),
          opt (Lit ''^'')]"
  have unf: "basic_sub_structure_pat = Seq upper ?X"
    by (simp add: basic_sub_structure_pat_def)
  from assms obtain s1 c1 where a: "(s1, c1) \<in> set (rmatch n upper (s, c))"
    and b: "(s', c') \<in> set (rmatch n ?X (s1, c1))"
    unfolding unf by (rule rmatch_SeqE)
  have "length s = Suc (length s1)" using a by (rule rmatch_Set_length)
  moreover have "length s' \<le> length s1" using b by (rule rmatch_length)
  ultimately show ?thesis by simp
qed

lemma basic_structure_branch:
  assumes "(s', c') \<in> set (rmatch n basic_structure_pat (s, Map.empty))"
  shows "present c' ''StructureName'' \<and> (\<forall>g. g \<noteq> ''StructureName'' \<longrightarrow> c' g = None)"
proof -
  from assms obtain c2 where
    "(s', c2) \<in> set (rmatch n (plus basic_sub_structure_pat) (s, Map.empty))"
    unfolding basic_structure_pat_def by (rule rmatch_GroupE)
  then obtain s1 c1 where "(s1, c1) \<in> set (rmatch n basic_sub_structure_pat (s, Map.empty))"
    and "length s' \<le> length s1"
    using rmatch_at_least_once[of s' c2 n 0 None basic_sub_structure_pat s Map.empty]
    by auto
  then have "length s' < length s"
    using basic_sub_structure_pat_consumes by fastforce
  with assms have "present c' ''StructureName''"
    unfolding basic_structure_pat_def by (rule rmatch_Group_present)
  moreover have "\<forall>g. g \<noteq> ''StructureName'' \<longrightarrow> c' g = None"
    using assms by (auto intro!: rmatch_unset simp: group_names_basic_structure_pat)
  ultimately show ?thesis by simp
qed

lemma structure_pat_unfold:
  "rmatch n structure_pat st =
     rmatch n not_evaluated_pat st @ rmatch n target_pattern st
     @ rmatch n oar_crop_pat st @ rmatch n basic_structure_pat st"
  by (simp add: structure_pat_def all_structure_pattern_def)

lemma fullmatch_SomeD:
  assumes "fullmatch r s = Some c"
  shows "([], c) \<in> set (rmatch (length s) r (s, Map.empty))"
proof -
  let ?xs = "filter (\<lambda>(rest, c). rest = []) (rmatch (length s) r (s, Map.empty))"
  from assms obtain rest ys where "?xs = (rest, c) # ys"
    by (auto simp: fullmatch_def split: list.splits)
  then have "(rest, c) \<in> set ?xs" by simp
  then show ?thesis by auto
qed

lemma structure_pat_classes:
  assumes "(s', c) \<in> set (rmatch n structure_pat (s, Map.empty))"
  shows "(present c ''NotEvalChar'' \<and> c ''BaseTarget'' = None \<and> c ''OARCrop'' = None
            \<and> c ''StructureName'' = None)
       \<or> (present c ''BaseTarget'' \<and> c ''NotEvalChar'' = None \<and> c ''OARCrop'' = None
            \<and> c ''StructureName'' = None)
       \<or> (present c ''OARCrop'' \<and> c ''NotEvalChar'' = None \<and> c ''BaseTarget'' = None
            \<and> c ''StructureName'' = None)
       \<or> (present c ''StructureName'' \<and> (\<forall>g. g \<noteq> ''StructureName'' \<longrightarrow> c g = None))"
  using assms not_evaluated_branch target_branch oar_crop_branch basic_structure_branch
  unfolding structure_pat_unfold set_append Un_iff by blast

lemma not_evaluated_pat_fails:
  assumes "x \<noteq> CHR ''z''" "x \<noteq> CHR ''Z''" "x \<noteq> CHR ''_''"
  shows "rmatch n not_evaluated_pat (x # t, c) = []"
  using assms by (simp add: not_evaluated_pat_def in_class_def)

lemma target_first:
  assumes "(s', c') \<in> set (rmatch n target_pattern (s, c))"
  shows "\<exists>x t. s = x # t \<and> x \<in> {CHR ''G'', CHR ''C'', CHR ''P'', CHR ''I''}"
proof -
  from assms obtain s1 c1 where "(s1, c1) \<in> set (rmatch n base_target_pat (s, c))"
    unfolding target_pattern_unfold by (rule rmatch_SeqE)
  then show ?thesis by (rule base_target_pat_first)
qed

lemma fullmatch_target_first:
  assumes "fullmatch target_pattern s = Some c"
  shows "fullmatch structure_pat s = Some c"
proof -
  from fullmatch_SomeD[OF assms] obtain x t
    where s: "s = x # t" and x: "x \<in> {CHR ''G'', CHR ''C'', CHR ''P'', CHR ''I''}"
    using target_first by blast
  have "rmatch (length s) not_evaluated_pat (s, Map.empty) = []"
    unfolding s using x by (intro not_evaluated_pat_fails) auto
  then show ?thesis
    using assms by (auto simp: fullmatch_def structure_pat_unfold split: list.splits)
qed

section \<open>Properties of the classifier and of the reduction\<close>



text \<open>
  Claim C1. For every name that \<open>structure_pat\<close> fully matches, exactly one of the four
  groups \<open>NotEvalChar\<close>, \<open>BaseTarget\<close>, \<open>OARCrop\<close> and \<open>StructureName\<close> is set to a
  non-empty text. For every name that both the Target grammar and the BasicOAR grammar
  fully match on their own, the combined pattern gives the match of the Target grammar:
  \<open>BaseTarget\<close> is present and \<open>StructureName\<close> is not set.
\<close>

theorem classifier_exclusive:
  "(\<forall>s c. fullmatch structure_pat s = Some c \<longrightarrow>
      length (filter (present c) [''NotEvalChar'', ''BaseTarget'', ''OARCrop'', ''StructureName'']) = 1)
   \<and> (\<forall>s ct cb. fullmatch target_pattern s = Some ct \<and> fullmatch basic_structure_pat s = Some cb \<longrightarrow>
         fullmatch structure_pat s = Some ct \<and> present ct ''BaseTarget''
         \<and> ct ''StructureName'' = None)"
proof (intro conjI allI impI)
  fix s c
  assume "fullmatch structure_pat s = Some c"
  then have "([], c) \<in> set (rmatch (length s) structure_pat (s, Map.empty))"
    by (rule fullmatch_SomeD)
  from structure_pat_classes[OF this]
  show "length (filter (present c) [''NotEvalChar'', ''BaseTarget'', ''OARCrop'', ''StructureName'']) = 1"
    by (auto simp: present_def)
next
  fix s ct cb
  assume a: "fullmatch target_pattern s = Some ct \<and> fullmatch basic_structure_pat s = Some cb"
  then show "fullmatch structure_pat s = Some ct"
    by (simp add: fullmatch_target_first)
  from a have "([], ct) \<in> set (rmatch (length s) target_pattern (s, Map.empty))"
    by (simp add: fullmatch_SomeD)
  from target_branch[OF this]
  show "present ct ''BaseTarget''" "ct ''StructureName'' = None" by simp_all
qed

text \<open>The name \<open>GTV\<close> is matched by both grammars and is classified as a target.\<close>

theorem classifier_exclusive_witness:
  "fullmatch target_pattern ''GTV'' \<noteq> None \<and> fullmatch basic_structure_pat ''GTV'' \<noteq> None
   \<and> grp (fullmatch structure_pat ''GTV'') ''BaseTarget'' = Some ''GTV''
   \<and> grp (fullmatch structure_pat ''GTV'') ''StructureName'' = None
   \<and> grp (fullmatch basic_structure_pat ''GTV'') ''StructureName'' = Some ''GTV''
   \<and> length (filter (present (the (fullmatch structure_pat ''GTV'')))
               [''NotEvalChar'', ''BaseTarget'', ''OARCrop'', ''StructureName'']) = 1"
proof -
  have t: "grp (fullmatch target_pattern ''GTV'') ''BaseTarget'' = Some ''GTV''" by code_simp
  have b: "grp (fullmatch basic_structure_pat ''GTV'') ''StructureName'' = Some ''GTV''" by code_simp
  have v: "grp (fullmatch structure_pat ''GTV'') ''BaseTarget'' = Some ''GTV''" by code_simp
  from t obtain ct where ct: "fullmatch target_pattern ''GTV'' = Some ct"
    by (auto simp: grp_def split: option.splits)
  from b obtain cb where cb: "fullmatch basic_structure_pat ''GTV'' = Some cb"
    by (auto simp: grp_def split: option.splits)
  from classifier_exclusive ct cb
  have s: "fullmatch structure_pat ''GTV'' = Some ct" and n: "ct ''StructureName'' = None"
    by blast+
  from classifier_exclusive s
  have "length (filter (present ct) [''NotEvalChar'', ''BaseTarget'', ''OARCrop'', ''StructureName'']) = 1"
    by blast
  then show ?thesis using ct cb s n v b by (simp add: grp_def)
qed




text \<open>
  Claim C5. The category step does not match \<open>Spc_Bowel\<close>: \<open>StructureCategory\<close> stays
  missing, the remainder stays \<open>Spc_Bowel\<close>, and the base-structure step later takes
  \<open>Spc\<close> as the base structure. The nine other codes of \<open>category_def\<close> are matched, with
  the rest after \<open>_\<close> as the remainder.
\<close>

theorem category_step_misses_spc:
  "grp (search major_category_pat ''Spc_Bowel'') ''StructureCategory'' = None
   \<and> Remainder (extract_name_group \<lparr>columns = [], Remainder = Some ''Spc_Bowel''\<rparr>
                  major_category_pat ''StructureCategory'' True) = Some ''Spc_Bowel''
   \<and> column (reduce_name ''Spc_Bowel'') ''StructureCategory'' = None
   \<and> column (reduce_name ''Spc_Bowel'') ''BaseStructure'' = Some ''Spc''
   \<and> list_all (\<lambda>k. grp (search major_category_pat (k @ ''_Bowel'')) ''StructureCategory'' = Some k
                    \<and> grp (search major_category_pat (k @ ''_Bowel'')) ''Remainder'' = Some ''Bowel'')
        [''A'', ''V'', ''LN'', ''CN'', ''Glnd'', ''Bone'', ''Musc'', ''VB'', ''Sinus'']"
  by code_simp

text \<open>
  Claim C6. The spatial step does not match \<open>Lung_RML\<close>: \<open>SpatialIndicator\<close> stays
  missing and the base-structure step later takes \<open>RML\<close> as a structure qualifier. The
  four other lobe codes are matched.
\<close>

theorem spatial_step_misses_rml:
  "grp (search spatial_pat ''Lung_RML'') ''SpatialIndicator'' = None
   \<and> column (reduce_name ''Lung_RML'') ''SpatialIndicator'' = None
   \<and> column (reduce_name ''Lung_RML'') ''StructureQualifier'' = Some ''RML''
   \<and> list_all (\<lambda>k. grp (search spatial_pat (''Lung_'' @ k)) ''SpatialIndicator'' = Some k)
        [''RUL'', ''RLL'', ''LUL'', ''LLL'']"
  by code_simp

section \<open>The dose specifier of a target name\<close>



















section \<open>The Not Evaluated alternative of the classifier\<close>

text \<open>
  The classifier pattern, unlike the helper \<open>not_evaluated\<close>, takes all of \<open>z\<close>, \<open>Z\<close>
  and \<open>_\<close>: for a name of one line, \<open>NotEvalChar\<close> is set exactly when the first
  character is one of the three, and \<open>NotEvaluated\<close> is then the rest of the name.
\<close>

lemma star_dot_first:
  "newline \<notin> set t \<Longrightarrow> \<exists>rest. iter (rmatch n Dot) True 0 (k + length t) (t, c) = ([], c) # rest"
proof (induction t arbitrary: k)
  case Nil
  then show ?case by (cases k) (auto simp: Let_def)
next
  case (Cons y t)
  then obtain rest where "iter (rmatch n Dot) True 0 (k + length t) (t, c) = ([], c) # rest"
    by fastforce
  with Cons.prems show ?case by (auto simp: Let_def)
qed

lemma not_evaluated_pat_first_char:
  assumes "newline \<notin> set t"
  shows "grp (fullmatch structure_pat (x # t)) ''NotEvalChar''
         = (if x \<in> {CHR ''z'', CHR ''Z'', CHR ''_''} then Some [x] else None)"
    and "x \<in> {CHR ''z'', CHR ''Z'', CHR ''_''}
         \<Longrightarrow> grp (fullmatch structure_pat (x # t)) ''NotEvaluated'' = Some t"
proof -
  let ?n = "length (x # t)"
  let ?c1 = "Map.empty(''NotEvalChar'' \<mapsto> [x])"
  have hit: "\<exists>rest. rmatch ?n not_evaluated_pat (x # t, Map.empty)
               = ([], ?c1(''NotEvaluated'' \<mapsto> t)) # rest"
    if "x \<in> {CHR ''z'', CHR ''Z'', CHR ''_''}"
  proof -
    obtain rest where "iter (rmatch ?n Dot) True 0 (0 + length t) (t, ?c1) = ([], ?c1) # rest"
      using star_dot_first[OF assms] by blast
    with that show ?thesis
      by (auto simp: not_evaluated_pat_def in_class_def bound_def)
  qed
  have miss: "grp (fullmatch structure_pat (x # t)) ''NotEvalChar'' = None"
    if "x \<notin> {CHR ''z'', CHR ''Z'', CHR ''_''}"
  proof (cases "fullmatch structure_pat (x # t)")
    case None
    then show ?thesis by (simp add: grp_def)
  next
    case (Some c)
    have "rmatch ?n not_evaluated_pat (x # t, Map.empty) = []"
      using that by (intro not_evaluated_pat_fails) auto
    with fullmatch_SomeD[OF Some] consider
        "([], c) \<in> set (rmatch ?n target_pattern (x # t, Map.empty))"
      | "([], c) \<in> set (rmatch ?n oar_crop_pat (x # t, Map.empty))"
      | "([], c) \<in> set (rmatch ?n basic_structure_pat (x # t, Map.empty))"
      unfolding structure_pat_unfold by auto
    then have "c ''NotEvalChar'' = None"
    proof cases
      case 1 then show ?thesis using target_branch by simp
    next
      case 2 then show ?thesis using oar_crop_branch by simp
    next
      case 3 then show ?thesis using basic_structure_branch by simp
    qed
    with Some show ?thesis by (simp add: grp_def)
  qed
  show "grp (fullmatch structure_pat (x # t)) ''NotEvalChar''
         = (if x \<in> {CHR ''z'', CHR ''Z'', CHR ''_''} then Some [x] else None)"
  proof (cases "x \<in> {CHR ''z'', CHR ''Z'', CHR ''_''}")
    case True
    from hit[OF True] obtain rest where
      "rmatch ?n not_evaluated_pat (x # t, Map.empty) = ([], ?c1(''NotEvaluated'' \<mapsto> t)) # rest"
      by blast
    then show ?thesis using True
      by (simp add: fullmatch_def structure_pat_unfold grp_def)
  next
    case False
    then show ?thesis using miss by simp
  qed
  show "grp (fullmatch structure_pat (x # t)) ''NotEvaluated'' = Some t"
    if "x \<in> {CHR ''z'', CHR ''Z'', CHR ''_''}"
  proof -
    from hit[OF that] obtain rest where
      "rmatch ?n not_evaluated_pat (x # t, Map.empty) = ([], ?c1(''NotEvaluated'' \<mapsto> t)) # rest"
      by blast
    then show ?thesis
      by (simp add: fullmatch_def structure_pat_unfold grp_def)
  qed
qed

end
